theory Spec2Isabelle
  imports Main
begin

section \<open>Shared API types\<close>

text \<open>
  The Go sources under verification are two admission plug-ins of the service catalog
  (\<^verbatim>\<open>changevalidator\<close>: \<^verbatim>\<open>denyPlanChangeIfNotUpdatable.Admit\<close>, and
  \<^verbatim>\<open>authsarcheck\<close>: \<^verbatim>\<open>sarcheck.Admit\<close>) and the integration tests of the
  binding controller. Structs are records, interface values are datatypes, a Go
  \<^verbatim>\<open>error\<close> result is an \<open>error option\<close> (\<open>None\<close> is \<^verbatim>\<open>nil\<close>) and a
  \<^verbatim>\<open>(value, error)\<close> result is a sum with the error on the left.
\<close>

type_synonym bytes = string

subsection \<open>Errors\<close>

text \<open>
  \<^verbatim>\<open>metav1.StatusReason\<close> as far as the plug-ins produce or inspect it. A Go error is
  either a plain error (\<^verbatim>\<open>errors.New\<close>, \<^verbatim>\<open>fmt.Errorf\<close>) or an API status error
  carrying a reason.
\<close>

datatype StatusReason =
    StatusReasonUnknown
  | StatusReasonForbidden
  | StatusReasonNotFound
  | StatusReasonBadRequest
  | StatusReasonInternalError

datatype error =
    errorString string
  | StatusError StatusReason string

fun Error :: "error \<Rightarrow> string" where
  "Error (errorString s) = s"
| "Error (StatusError r s) = s"

fun ReasonForError :: "error \<Rightarrow> StatusReason" where
  "ReasonForError (errorString s) = StatusReasonUnknown"
| "ReasonForError (StatusError r s) = r"

definition IsNotFound :: "error \<Rightarrow> bool" where
  "IsNotFound err = (ReasonForError err = StatusReasonNotFound)"

definition IsForbidden :: "error \<Rightarrow> bool" where
  "IsForbidden err = (ReasonForError err = StatusReasonForbidden)"

definition NewBadRequest :: "string \<Rightarrow> error" where
  "NewBadRequest reason = StatusError StatusReasonBadRequest reason"

subsection \<open>Object metadata and references\<close>

text \<open>
  \<^verbatim>\<open>ClusterObjectReference\<close> and \<^verbatim>\<open>LocalObjectReference\<close> carry a \<^verbatim>\<open>Name\<close>;
  \<^verbatim>\<open>ObjectReference\<close> and the object metadata carry \<^verbatim>\<open>Namespace\<close> and \<^verbatim>\<open>Name\<close>.
  A resource is its metadata extended by a \<^verbatim>\<open>Spec\<close>.
\<close>

record Named =
  Name :: string

record Namespaced = Named +
  Namespace :: string

type_synonym ClusterObjectReference = Named
type_synonym LocalObjectReference = Named
type_synonym ObjectReference = Namespaced

record 'spec TypedObject = Namespaced +
  Spec :: 'spec

subsection \<open>Service instances and classes\<close>

record PlanReference =
  ClusterServiceClassExternalName :: string
  ClusterServiceClassExternalID :: string
  ClusterServiceClassName :: string
  ClusterServicePlanExternalName :: string
  ClusterServicePlanExternalID :: string
  ClusterServicePlanName :: string

record ServiceInstanceSpec = PlanReference +
  ClusterServiceClassRef :: "ClusterObjectReference option"

type_synonym ServiceInstance = "ServiceInstanceSpec TypedObject"

record ClusterServiceClassSpec =
  PlanUpdatable :: bool

type_synonym ClusterServiceClass = "ClusterServiceClassSpec TypedObject"

text \<open>
  Modelled from the spec: \<^verbatim>\<open>PlanReference.GetSpecifiedClusterServicePlan\<close> is declared
  with the API types, which are not among the sources. An instance names its plan by
  external name, external ID or Kubernetes name; the method returns the first of the three
  that is set, and the empty string when none is.
\<close>

definition GetSpecifiedClusterServicePlan :: "'a PlanReference_scheme \<Rightarrow> string" where
  "GetSpecifiedClusterServicePlan pr =
     (if ClusterServicePlanExternalName pr \<noteq> '''' then ClusterServicePlanExternalName pr
      else if ClusterServicePlanExternalID pr \<noteq> '''' then ClusterServicePlanExternalID pr
      else if ClusterServicePlanName pr \<noteq> '''' then ClusterServicePlanName pr
      else '''')"

subsection \<open>Brokers\<close>

text \<open>
  A cluster-scoped broker refers to its auth secret by \<^verbatim>\<open>ObjectReference\<close>, a
  namespaced broker by \<^verbatim>\<open>LocalObjectReference\<close>; the reference type is the parameter.
  \<^verbatim>\<open>BasicAuthConfig\<close> and \<^verbatim>\<open>BearerTokenAuthConfig\<close> both hold just a
  \<^verbatim>\<open>SecretRef\<close> pointer.
\<close>

record 'ref AuthConfig =
  SecretRef :: "'ref option"

record 'ref BrokerAuthInfo =
  Basic :: "'ref AuthConfig option"
  Bearer :: "'ref AuthConfig option"

record 'ref BrokerSpec =
  AuthInfo :: "'ref BrokerAuthInfo option"

type_synonym ClusterServiceBroker = "ObjectReference BrokerSpec TypedObject"
type_synonym ServiceBroker = "LocalObjectReference BrokerSpec TypedObject"

subsection \<open>Admission attributes and handler\<close>

record GroupVersionResource =
  Group :: string
  Version :: string
  Resource :: string

type_synonym GroupResource = "string \<times> string"

definition GroupResource :: "GroupVersionResource \<Rightarrow> GroupResource" where
  "GroupResource gvr = (Group gvr, Resource gvr)"

text \<open>
  \<^verbatim>\<open>servicecatalog.GroupName\<close> and \<^verbatim>\<open>servicecatalog.Resource\<close> come from the API
  package (not among the sources); no result below depends on the value of the name.
\<close>

definition GroupName :: string where
  "GroupName = ''servicecatalog.k8s.io''"

definition servicecatalog_Resource :: "string \<Rightarrow> GroupResource" where
  "servicecatalog_Resource resource = (GroupName, resource)"

text \<open>The \<^verbatim>\<open>runtime.Object\<close> of a request, by its dynamic type.\<close>

datatype Object =
    ServiceInstanceObject ServiceInstance
  | ClusterServiceBrokerObject ClusterServiceBroker
  | ServiceBrokerObject ServiceBroker
  | OtherObject

record UserInfo =
  GetName :: string
  GetUID :: string
  GetGroups :: "string list"
  GetExtra :: "(string \<rightharpoonup> string list) option"

record Attributes =
  GetResource :: GroupVersionResource
  GetObject :: Object
  GetUserInfo :: UserInfo

datatype Operation = Create | Update | Delete | Connect

text \<open>
  \<^verbatim>\<open>admission.Handler\<close>: the operations it handles and its readiness function.
  \<open>readyFunc = None\<close> is a handler on which \<^verbatim>\<open>SetReadyFunc\<close> was never called;
  \<open>Some b\<close> records whether the function comes to hold within the time
  \<^verbatim>\<open>WaitForReady\<close> waits for it.
\<close>

record Handler =
  operations :: "Operation list"
  readyFunc :: "bool option"

definition NewHandler :: "Operation list \<Rightarrow> Handler" where
  "NewHandler ops = \<lparr>operations = ops, readyFunc = None\<rparr>"

definition Handles :: "Handler \<Rightarrow> Operation \<Rightarrow> bool" where
  "Handles h operation = (operation \<in> set (operations h))"

definition WaitForReady :: "Handler \<Rightarrow> bool" where
  "WaitForReady h = (case readyFunc h of None \<Rightarrow> True | Some ready \<Rightarrow> ready)"

text \<open>
  \<^verbatim>\<open>admission.NewForbidden\<close>: an error that is already Forbidden is returned as it
  is, any other is wrapped into a Forbidden status error. The library also puts the
  resource and the object's name into the message; the model keeps the inner message.
\<close>

definition NewForbidden :: "Attributes \<Rightarrow> error \<Rightarrow> error" where
  "NewForbidden a internalError =
     (if IsForbidden internalError then internalError
      else StatusError StatusReasonForbidden (Error internalError))"

section \<open>The plan-change validator\<close>

text \<open>
  Both plug-ins embed \<^verbatim>\<open>*admission.Handler\<close>. \<^verbatim>\<open>denyPlanChangeIfNotUpdatable\<close>
  adds the listers (the informer caches) of classes and instances, whose \<^verbatim>\<open>Get\<close>
  returns the cached object or an error. The plan lister is set up by the plug-in but
  never read by \<^verbatim>\<open>Admit\<close>.
\<close>

record plugin =
  Handler :: Handler

record denyPlanChangeIfNotUpdatable = plugin +
  scLister :: "string \<Rightarrow> error + ClusterServiceClass"
  instanceLister :: "string \<Rightarrow> string \<Rightarrow> error + ServiceInstance"

definition planChangeMessage :: "ClusterServiceClass \<Rightarrow> string" where
  "planChangeMessage sc = ''The Service Class '' @ Name sc @ '' does not allow plan changes.''"

definition changevalidator_Admit ::
  "denyPlanChangeIfNotUpdatable \<Rightarrow> Attributes \<Rightarrow> error option" where
  "changevalidator_Admit d a =
     (if \<not> WaitForReady (Handler d) then
        Some (NewForbidden a (errorString ''not yet ready to handle request''))
      else if Group (GetResource a) \<noteq> GroupName
              \<or> GroupResource (GetResource a) \<noteq> servicecatalog_Resource ''serviceinstances'' then
        None
      else
        (case GetObject a of
          ServiceInstanceObject instance \<Rightarrow>
            (case ClusterServiceClassRef (Spec instance) of
              None \<Rightarrow> None
            | Some classRef \<Rightarrow>
                (case scLister d (Name classRef) of
                  Inl err \<Rightarrow>
                    if IsNotFound err then None else Some (NewForbidden a err)
                | Inr sc \<Rightarrow>
                    if PlanUpdatable (Spec sc) then None
                    else if GetSpecifiedClusterServicePlan (Spec instance) \<noteq> '''' then
                      (case instanceLister d (Namespace instance) (Name instance) of
                        Inl err \<Rightarrow> Some err
                      | Inr origInstance \<Rightarrow>
                          let externalPlanNameUpdated =
                                ClusterServicePlanExternalName (Spec instance)
                                  \<noteq> ClusterServicePlanExternalName (Spec origInstance);
                              externalPlanIDUpdated =
                                ClusterServicePlanExternalID (Spec instance)
                                  \<noteq> ClusterServicePlanExternalID (Spec origInstance);
                              k8sPlanUpdated =
                                ClusterServicePlanName (Spec instance)
                                  \<noteq> ClusterServicePlanName (Spec origInstance)
                          in if externalPlanNameUpdated \<or> externalPlanIDUpdated \<or> k8sPlanUpdated
                             then Some (NewForbidden a (errorString (planChangeMessage sc)))
                             else None)
                    else None))
        | _ \<Rightarrow>
            Some (NewBadRequest
              ''Resource was marked with kind Instance but was unable to be converted'')))"

text \<open>
  \<^verbatim>\<open>NewDenyPlanChangeIfNotUpdatable\<close> builds the handler for updates;
  \<^verbatim>\<open>SetInternalServiceCatalogInformerFactory\<close> then plugs in the listers and the
  readiness function, which holds once the three informers have synced.
\<close>

record SharedInformerFactory =
  ClusterServiceClasses :: "string \<Rightarrow> error + ClusterServiceClass"
  ServiceInstances :: "string \<Rightarrow> string \<Rightarrow> error + ServiceInstance"
  ClusterServiceClassesHasSynced :: bool
  ServiceInstancesHasSynced :: bool
  ClusterServicePlansHasSynced :: bool

definition NewDenyPlanChangeIfNotUpdatable :: "Handler" where
  "NewDenyPlanChangeIfNotUpdatable = NewHandler [Update]"

definition SetInternalServiceCatalogInformerFactory ::
  "SharedInformerFactory \<Rightarrow> Handler \<Rightarrow> denyPlanChangeIfNotUpdatable" where
  "SetInternalServiceCatalogInformerFactory f h =
     \<lparr>Handler = h\<lparr>readyFunc :=
          Some (ClusterServiceClassesHasSynced f \<and> ServiceInstancesHasSynced f
                \<and> ClusterServicePlansHasSynced f)\<rparr>,
      scLister = ClusterServiceClasses f,
      instanceLister = ServiceInstances f\<rparr>"

text \<open>
  Modelled from the spec: the update path around the gate is generic API-server
  machinery and the reconciler, neither among the sources. The gate runs before a write
  reaches the store and the reconciler, so a rejected update leaves everything behind the
  gate (the stored instance, the calls made to the broker) as it was. What an admitted
  write goes on to do is the parameter \<open>commit\<close>; \<open>'world\<close> is the state behind
  the gate.
\<close>

definition updateServiceInstance ::
  "denyPlanChangeIfNotUpdatable \<Rightarrow> Attributes \<Rightarrow> (Attributes \<Rightarrow> 'world \<Rightarrow> 'world)
     \<Rightarrow> 'world \<Rightarrow> error option \<times> 'world" where
  "updateServiceInstance d a commit w =
     (if Handles (Handler d) Update then
        (case changevalidator_Admit d a of
          Some err \<Rightarrow> (Some err, w)
        | None \<Rightarrow> (None, commit a w))
      else (None, commit a w))"

section \<open>The broker-credential access check\<close>

text \<open>
  The \<^verbatim>\<open>SubjectAccessReview\<close> the plug-in creates. The fields of
  \<^verbatim>\<open>ResourceAttributes\<close> and of the review's status carry a prefix where the Go name
  is taken by another struct above.
\<close>

record ResourceAttributes =
  raNamespace :: string
  raVerb :: string
  raGroup :: string
  raVersion :: string
  raResource :: string
  raName :: string

record SubjectAccessReviewSpec =
  ResourceAttributes :: ResourceAttributes
  User :: string
  Groups :: "string list"
  Extra :: "(string \<rightharpoonup> string list) option"
  UID :: string

record SubjectAccessReviewStatus =
  Allowed :: bool
  sarReason :: string
  EvaluationError :: string

record SubjectAccessReview =
  sarSpec :: SubjectAccessReviewSpec
  sarStatus :: SubjectAccessReviewStatus

text \<open>
  \<^verbatim>\<open>sarcheck\<close>: the handler and the Kubernetes client, of which \<^verbatim>\<open>Admit\<close> uses
  \<^verbatim>\<open>AuthorizationV1().SubjectAccessReviews().Create\<close> only.
\<close>

record sarcheck = plugin +
  client :: "SubjectAccessReview \<Rightarrow> error + SubjectAccessReview"

definition convertToSARExtra ::
  "(string \<rightharpoonup> string list) option \<Rightarrow> (string \<rightharpoonup> string list) option" where
  "convertToSARExtra extra =
     (case extra of
       None \<Rightarrow> None
     | Some m \<Rightarrow> Some (\<lambda>k. m k))"

text \<open>
  The first half of \<^verbatim>\<open>Admit\<close>: which secret the broker of the request refers to.
  \<open>Inl r\<close> is an early \<^verbatim>\<open>return r\<close>; \<open>Inr (namespace, secretName)\<close> are the two
  variables as they stand when the branches are left, both \<^verbatim>\<open>""\<close> when the request
  is for neither kind of broker.
\<close>

definition brokerSecret :: "Attributes \<Rightarrow> error option + string \<times> string" where
  "brokerSecret a =
     (if GroupResource (GetResource a) = servicecatalog_Resource ''clusterservicebrokers'' then
        (case GetObject a of
          ClusterServiceBrokerObject clusterServiceBroker \<Rightarrow>
            (case AuthInfo (Spec clusterServiceBroker) of
              None \<Rightarrow> Inl None
            | Some authInfo \<Rightarrow>
                (case (case Basic authInfo of
                         Some basic \<Rightarrow> SecretRef basic
                       | None \<Rightarrow>
                           (case Bearer authInfo of
                             Some bearer \<Rightarrow> SecretRef bearer
                           | None \<Rightarrow> None)) of
                  None \<Rightarrow> Inl None
                | Some secretRef \<Rightarrow> Inr (Namespace secretRef, Name secretRef)))
        | _ \<Rightarrow>
            Inl (Some (NewBadRequest
              ''Resource was marked with kind ClusterServiceBroker, but was unable to be converted'')))
      else if GroupResource (GetResource a) = servicecatalog_Resource ''servicebrokers'' then
        (case GetObject a of
          ServiceBrokerObject serviceBroker \<Rightarrow>
            (case AuthInfo (Spec serviceBroker) of
              None \<Rightarrow> Inl None
            | Some authInfo \<Rightarrow>
                (case (case Basic authInfo of
                         Some basic \<Rightarrow> SecretRef basic
                       | None \<Rightarrow>
                           (case Bearer authInfo of
                             Some bearer \<Rightarrow> SecretRef bearer
                           | None \<Rightarrow> None)) of
                  None \<Rightarrow> Inl None
                | Some secretRef \<Rightarrow> Inr (Namespace serviceBroker, Name secretRef)))
        | _ \<Rightarrow>
            Inl (Some (NewBadRequest
              ''Resource was marked with kind ServiceBroker, but was unable to be converted'')))
      else Inr ('''', ''''))"

definition newSubjectAccessReview :: "Attributes \<Rightarrow> string \<Rightarrow> string \<Rightarrow> SubjectAccessReview" where
  "newSubjectAccessReview a namespace secretName =
     (let userInfo = GetUserInfo a in
      \<lparr>sarSpec =
         \<lparr>ResourceAttributes =
            \<lparr>raNamespace = namespace,
             raVerb = ''get'',
             raGroup = '''',
             raVersion = ''v1'',
             raResource = ''secrets'',
             raName = secretName\<rparr>,
          User = GetName userInfo,
          Groups = GetGroups userInfo,
          Extra = convertToSARExtra (GetExtra userInfo),
          UID = GetUID userInfo\<rparr>,
       sarStatus = \<lparr>Allowed = False, sarReason = '''', EvaluationError = ''''\<rparr>\<rparr>)"

definition accessDeniedMessage :: "string \<Rightarrow> SubjectAccessReviewStatus \<Rightarrow> string" where
  "accessDeniedMessage secretName st =
     ''broker forbidden access to auth secret ('' @ secretName @ ''): Reason: '' @ sarReason st
       @ '', EvaluationError: '' @ EvaluationError st"

text \<open>
  \<^verbatim>\<open>sarcheck.Admit\<close>. The result is the returned error together with the reviews
  the call created through the client, in order.
\<close>

definition authsarcheck_Admit ::
  "sarcheck \<Rightarrow> Attributes \<Rightarrow> error option \<times> SubjectAccessReview list" where
  "authsarcheck_Admit s a =
     (if \<not> WaitForReady (Handler s) then
        (Some (NewForbidden a (errorString ''not yet ready to handle request'')), [])
      else if Group (GetResource a) \<noteq> GroupName then (None, [])
      else
        (case brokerSecret a of
          Inl result \<Rightarrow> (result, [])
        | Inr (namespace, secretName) \<Rightarrow>
            if namespace = '''' \<or> secretName = '''' then (None, [])
            else
              (let sar = newSubjectAccessReview a namespace secretName in
               case client s sar of
                 Inl err \<Rightarrow> (Some err, [sar])
               | Inr sar' \<Rightarrow>
                   if \<not> Allowed (sarStatus sar') then
                     (Some (NewForbidden a
                        (errorString (accessDeniedMessage secretName (sarStatus sar')))), [sar])
                   else (None, [sar]))))"

definition NewSARCheck :: "Handler" where
  "NewSARCheck = NewHandler [Create, Update]"

definition SetKubeClientSet ::
  "(SubjectAccessReview \<Rightarrow> error + SubjectAccessReview) \<Rightarrow> Handler \<Rightarrow> sarcheck" where
  "SetKubeClientSet kubeClient h = \<lparr>Handler = h, client = kubeClient\<rparr>"

text \<open>
  The secret a broker request puts up for review, in the words of the check's
  description and written on the broker's fields alone, to be compared with
  \<open>authsarcheck_Admit\<close>. The check consults one auth config of the broker, the Basic
  one when it is set and the Bearer one otherwise, and takes that config's secret
  reference. The reference of a cluster broker names the secret's namespace itself; the
  secret of a namespaced broker lies in the broker's own namespace.
\<close>

definition carriesSecretRef :: "'ref AuthConfig option \<Rightarrow> bool" where
  "carriesSecretRef config = (case config of None \<Rightarrow> False | Some c \<Rightarrow> SecretRef c \<noteq> None)"

definition consultedSecretRef :: "'ref BrokerAuthInfo option \<Rightarrow> 'ref option" where
  "consultedSecretRef authInfo =
     (case authInfo of
       None \<Rightarrow> None
     | Some info \<Rightarrow>
         (case (case Basic info of Some basic \<Rightarrow> Some basic | None \<Rightarrow> Bearer info) of
           None \<Rightarrow> None
         | Some config \<Rightarrow> SecretRef config))"

definition secretToReview :: "Attributes \<Rightarrow> (string \<times> string) option" where
  "secretToReview a =
     (case GetObject a of
       ClusterServiceBrokerObject b \<Rightarrow>
         map_option (\<lambda>secretRef. (Namespace secretRef, Name secretRef))
           (consultedSecretRef (AuthInfo (Spec b)))
     | ServiceBrokerObject b \<Rightarrow>
         map_option (\<lambda>secretRef. (Namespace b, Name secretRef))
           (consultedSecretRef (AuthInfo (Spec b)))
     | _ \<Rightarrow> None)"

definition isBrokerRequest :: "Attributes \<Rightarrow> bool" where
  "isBrokerRequest a =
     (case GetObject a of
       ClusterServiceBrokerObject b \<Rightarrow> Resource (GetResource a) = ''clusterservicebrokers''
     | ServiceBrokerObject b \<Rightarrow> Resource (GetResource a) = ''servicebrokers''
     | _ \<Rightarrow> False)"

section \<open>The secret transform pipeline\<close>

text \<open>
  Modelled from the spec: the pipeline belongs to the binding controller, which is not
  among the sources; only its integration test
  \<^verbatim>\<open>TestCreateServiceBindingWithSecretTransform\<close> is. A secret payload maps keys to
  raw bytes. The transforms run in list order on the working payload. \<^verbatim>\<open>AddKey\<close>
  inserts or overwrites a key with literal bytes, a literal string, or the value of a
  JSONPath expression read from the original broker credential document;
  \<^verbatim>\<open>RenameKey\<close> copies \<open>from\<close> to \<open>to\<close> and removes \<open>from\<close>, doing nothing
  when \<open>from\<close> is absent; \<^verbatim>\<open>RemoveKey\<close> deletes a key; \<^verbatim>\<open>AddKeysFrom\<close>
  fetches another secret and merges its keys in, the incoming value winning. Only the
  fetch of \<^verbatim>\<open>AddKeysFrom\<close> can fail the pipeline. The JSONPath evaluator (a library)
  and the secret store are parameters, with the original credential document.
\<close>

type_synonym payload = "string \<rightharpoonup> bytes"

datatype AddKeyValue = Value bytes | StringValue string | JSONPathExpression string

datatype SecretTransform =
    AddKey string AddKeyValue
  | RenameKey string string
  | AddKeysFrom ObjectReference
  | RemoveKey string

record 'doc transformer =
  evaluateJSONPath :: "string \<Rightarrow> 'doc \<Rightarrow> bytes option"
  getSecret :: "ObjectReference \<Rightarrow> error + payload"
  credentials :: 'doc

fun applyTransform :: "'doc transformer \<Rightarrow> SecretTransform \<Rightarrow> payload \<Rightarrow> error + payload" where
  "applyTransform c (AddKey key (Value v)) p = Inr (p(key \<mapsto> v))"
| "applyTransform c (AddKey key (StringValue s)) p = Inr (p(key \<mapsto> s))"
| "applyTransform c (AddKey key (JSONPathExpression expr)) p =
     (case evaluateJSONPath c expr (credentials c) of
       None \<Rightarrow> Inr p
     | Some v \<Rightarrow> Inr (p(key \<mapsto> v)))"
| "applyTransform c (RenameKey from to) p =
     (case p from of
       None \<Rightarrow> Inr p
     | Some v \<Rightarrow> Inr ((p(to \<mapsto> v))(from := None)))"
| "applyTransform c (AddKeysFrom secretRef) p =
     (case getSecret c secretRef of
       Inl err \<Rightarrow> Inl err
     | Inr other \<Rightarrow> Inr (p ++ other))"
| "applyTransform c (RemoveKey key) p = Inr (p(key := None))"

fun transformCredentials ::
  "'doc transformer \<Rightarrow> SecretTransform list \<Rightarrow> payload \<Rightarrow> error + payload" where
  "transformCredentials c [] p = Inr p"
| "transformCredentials c (t # ts) p =
     (case applyTransform c t p of
       Inl err \<Rightarrow> Inl err
     | Inr p' \<Rightarrow> transformCredentials c ts p')"

subsection \<open>The test table of \<^verbatim>\<open>TestCreateServiceBindingWithSecretTransform\<close>\<close>

text \<open>
  The credentials of the test broker are what the case "no transform" expects to find in
  the secret. The case "multiple transforms" registers the secret
  \<^verbatim>\<open>other-secret\<close> with the fake client and expects \<open>expectedSecretData\<close>.
\<close>

definition brokerCredentials :: payload where
  "brokerCredentials = [''foo'' \<mapsto> ''bar'', ''baz'' \<mapsto> ''zap'']"

definition renameNonExistentKey :: "SecretTransform list" where
  "renameNonExistentKey = [RenameKey ''non-existent-key'' ''bar'']"

definition multipleTransforms :: "SecretTransform list" where
  "multipleTransforms =
     [AddKey ''addedStringValue'' (StringValue ''stringValue''),
      AddKey ''addedByteArray'' (Value ''byteArray''),
      AddKey ''valueFromJSONPath'' (JSONPathExpression ''{.foo}''),
      RenameKey ''foo'' ''bar'',
      AddKeysFrom \<lparr>Name = ''other-secret'', Namespace = ''some-namespace''\<rparr>,
      RemoveKey ''baz'']"

definition expectedSecretData :: payload where
  "expectedSecretData =
     [''addedStringValue'' \<mapsto> ''stringValue'',
      ''addedByteArray'' \<mapsto> ''byteArray'',
      ''valueFromJSONPath'' \<mapsto> ''bar'',
      ''bar'' \<mapsto> ''bar'',
      ''key-from-other-secret'' \<mapsto> ''qux'']"

definition prependGetSecretReaction :: "string \<Rightarrow> payload \<Rightarrow> ObjectReference \<Rightarrow> error + payload" where
  "prependGetSecretReaction secretName secretData secretRef =
     (if Name secretRef = secretName then Inr secretData
      else Inl (StatusError StatusReasonNotFound (Name secretRef)))"

text \<open>
  A JSONPath evaluator for expressions of the one form the test uses, \<^verbatim>\<open>{.name}\<close>:
  the top-level field \<^verbatim>\<open>name\<close> of the document.
\<close>

definition topLevelField :: "string \<Rightarrow> payload \<Rightarrow> bytes option" where
  "topLevelField expr doc =
     (if 3 \<le> length expr \<and> take 2 expr = ''{.'' \<and> last expr = CHR ''}''
      then doc (butlast (drop 2 expr)) else None)"

definition testTransformer :: "payload transformer" where
  "testTransformer =
     \<lparr>evaluateJSONPath = topLevelField,
      getSecret = prependGetSecretReaction ''other-secret'' [''key-from-other-secret'' \<mapsto> ''qux''],
      credentials = brokerCredentials\<rparr>"

section \<open>Concrete requests\<close>

text \<open>
  A class that does not allow plan changes, an instance stored on the plan
  \<^verbatim>\<open>small\<close>, and the update that moves it to \<^verbatim>\<open>large\<close>; informers that have
  synced, and informers whose class cache has not been populated.
\<close>

definition exampleClass :: ClusterServiceClass where
  "exampleClass = \<lparr>Name = ''class-1'', Namespace = '''', Spec = \<lparr>PlanUpdatable = False\<rparr>\<rparr>"

definition storedInstance :: ServiceInstance where
  "storedInstance =
     \<lparr>Name = ''db'', Namespace = ''dev'',
      Spec = \<lparr>ClusterServiceClassExternalName = ''mysql'',
              ClusterServiceClassExternalID = '''',
              ClusterServiceClassName = '''',
              ClusterServicePlanExternalName = ''small'',
              ClusterServicePlanExternalID = '''',
              ClusterServicePlanName = '''',
              ClusterServiceClassRef = Some \<lparr>Name = ''class-1''\<rparr>\<rparr>\<rparr>"

definition updatedInstance :: ServiceInstance where
  "updatedInstance =
     storedInstance\<lparr>Spec := (Spec storedInstance)\<lparr>ClusterServicePlanExternalName := ''large''\<rparr>\<rparr>"

definition notFound :: "string \<Rightarrow> error" where
  "notFound objectName = StatusError StatusReasonNotFound (objectName @ '' not found'')"

definition syncedInformers :: SharedInformerFactory where
  "syncedInformers =
     \<lparr>ClusterServiceClasses =
        (\<lambda>className. if className = ''class-1'' then Inr exampleClass else Inl (notFound className)),
      ServiceInstances =
        (\<lambda>namespace instanceName.
           if namespace = ''dev'' \<and> instanceName = ''db'' then Inr storedInstance
           else Inl (notFound instanceName)),
      ClusterServiceClassesHasSynced = True,
      ServiceInstancesHasSynced = True,
      ClusterServicePlansHasSynced = True\<rparr>"

definition staleClassInformers :: SharedInformerFactory where
  "staleClassInformers =
     syncedInformers\<lparr>ClusterServiceClasses := (\<lambda>className. Inl (notFound className))\<rparr>"

definition someUser :: UserInfo where
  "someUser = \<lparr>GetName = ''alice'', GetUID = ''1'', GetGroups = [''dev''], GetExtra = None\<rparr>"

definition planChangeRequest :: Attributes where
  "planChangeRequest =
     \<lparr>GetResource = \<lparr>Group = GroupName, Version = ''v1beta1'', Resource = ''serviceinstances''\<rparr>,
      GetObject = ServiceInstanceObject updatedInstance,
      GetUserInfo = someUser\<rparr>"

text \<open>
  Brokers: a cluster broker with basic auth from the secret \<^verbatim>\<open>creds/broker-auth\<close>,
  one with a bearer token from \<^verbatim>\<open>creds/token\<close>, a namespaced broker in \<^verbatim>\<open>dev\<close>
  with basic auth from \<^verbatim>\<open>broker-auth\<close>, and a namespaced broker without auth.
\<close>

definition brokerWithBasicAuth :: ClusterServiceBroker where
  "brokerWithBasicAuth =
     \<lparr>Name = ''broker'', Namespace = '''',
      Spec = \<lparr>AuthInfo = Some
        \<lparr>Basic = Some \<lparr>SecretRef = Some \<lparr>Name = ''broker-auth'', Namespace = ''creds''\<rparr>\<rparr>,
         Bearer = None\<rparr>\<rparr>\<rparr>"

definition brokerWithBearerAuth :: ClusterServiceBroker where
  "brokerWithBearerAuth =
     \<lparr>Name = ''broker'', Namespace = '''',
      Spec = \<lparr>AuthInfo = Some
        \<lparr>Basic = None,
         Bearer = Some \<lparr>SecretRef = Some \<lparr>Name = ''token'', Namespace = ''creds''\<rparr>\<rparr>\<rparr>\<rparr>\<rparr>"

definition namespacedBrokerWithBasicAuth :: ServiceBroker where
  "namespacedBrokerWithBasicAuth =
     \<lparr>Name = ''broker'', Namespace = ''dev'',
      Spec = \<lparr>AuthInfo = Some
        \<lparr>Basic = Some \<lparr>SecretRef = Some \<lparr>Name = ''broker-auth''\<rparr>\<rparr>, Bearer = None\<rparr>\<rparr>\<rparr>"

definition brokerWithoutAuth :: ServiceBroker where
  "brokerWithoutAuth = \<lparr>Name = ''broker'', Namespace = ''dev'', Spec = \<lparr>AuthInfo = None\<rparr>\<rparr>"

text \<open>
  A cluster broker whose Basic config is set without a secret reference while its Bearer
  config refers to \<^verbatim>\<open>creds/token\<close>.
\<close>

definition brokerWithEmptyBasicAuth :: ClusterServiceBroker where
  "brokerWithEmptyBasicAuth =
     \<lparr>Name = ''broker'', Namespace = '''',
      Spec = \<lparr>AuthInfo = Some
        \<lparr>Basic = Some \<lparr>SecretRef = None\<rparr>,
         Bearer = Some \<lparr>SecretRef = Some \<lparr>Name = ''token'', Namespace = ''creds''\<rparr>\<rparr>\<rparr>\<rparr>\<rparr>"

definition clusterBrokerRequest :: "ClusterServiceBroker \<Rightarrow> Attributes" where
  "clusterBrokerRequest b =
     \<lparr>GetResource = \<lparr>Group = GroupName, Version = ''v1beta1'', Resource = ''clusterservicebrokers''\<rparr>,
      GetObject = ClusterServiceBrokerObject b,
      GetUserInfo = someUser\<rparr>"

definition brokerRequest :: "ServiceBroker \<Rightarrow> Attributes" where
  "brokerRequest b =
     \<lparr>GetResource = \<lparr>Group = GroupName, Version = ''v1beta1'', Resource = ''servicebrokers''\<rparr>,
      GetObject = ServiceBrokerObject b,
      GetUserInfo = someUser\<rparr>"

text \<open>Clients whose reviews deny, or allow, everything.\<close>

definition denyAll :: "SubjectAccessReview \<Rightarrow> error + SubjectAccessReview" where
  "denyAll sar =
     Inr (sar\<lparr>sarStatus := \<lparr>Allowed = False, sarReason = ''no'', EvaluationError = ''''\<rparr>\<rparr>)"

definition allowAll :: "SubjectAccessReview \<Rightarrow> error + SubjectAccessReview" where
  "allowAll sar =
     Inr (sar\<lparr>sarStatus := \<lparr>Allowed = True, sarReason = '''', EvaluationError = ''''\<rparr>\<rparr>)"

section \<open>Results on the admission plug-ins\<close>

lemma IsForbidden_NewForbidden: "IsForbidden (NewForbidden a err)"
  by (cases err) (simp_all add: NewForbidden_def IsForbidden_def)

lemma serviceinstances_resource:
  assumes "Group (GetResource a) = GroupName" "Resource (GetResource a) = ''serviceinstances''"
  shows "GroupResource (GetResource a) = servicecatalog_Resource ''serviceinstances''"
  using assms by (simp add: GroupResource_def servicecatalog_Resource_def)

text \<open>
  Claim C1. An update of a service instance whose class, as the gate's lister resolves
  it, has \<open>PlanUpdatable = False\<close>, and which specifies a plan that differs from the
  stored instance's in external name, external ID or Kubernetes name, is rejected by
  \<open>changevalidator_Admit\<close> with a Forbidden error, whether or not the caches are
  ready. The write then never passes the gate: \<open>updateServiceInstance\<close> returns the
  error and leaves the state behind the gate, the broker's call log included, untouched.
\<close>

theorem plan_change_denied_when_not_updatable:
  assumes resource: "Group (GetResource a) = GroupName"
      "Resource (GetResource a) = ''serviceinstances''"
    and object: "GetObject a = ServiceInstanceObject instance"
    and classRef: "ClusterServiceClassRef (Spec instance) = Some classRef"
    and cls: "scLister d (Name classRef) = Inr sc" "\<not> PlanUpdatable (Spec sc)"
    and specified: "GetSpecifiedClusterServicePlan (Spec instance) \<noteq> ''''"
    and stored: "instanceLister d (Namespace instance) (Name instance) = Inr origInstance"
    and changed:
      "ClusterServicePlanExternalName (Spec instance) \<noteq> ClusterServicePlanExternalName (Spec origInstance)
       \<or> ClusterServicePlanExternalID (Spec instance) \<noteq> ClusterServicePlanExternalID (Spec origInstance)
       \<or> ClusterServicePlanName (Spec instance) \<noteq> ClusterServicePlanName (Spec origInstance)"
    and handles: "Handles (Handler d) Update"
  shows "\<exists>err. changevalidator_Admit d a = Some err \<and> IsForbidden err
           \<and> updateServiceInstance d a commit w = (Some err, w)"
proof (cases "WaitForReady (Handler d)")
  case False
  then have "changevalidator_Admit d a
      = Some (NewForbidden a (errorString ''not yet ready to handle request''))"
    by (simp add: changevalidator_Admit_def)
  then show ?thesis
    using handles by (simp add: updateServiceInstance_def IsForbidden_NewForbidden)
next
  case True
  have "changevalidator_Admit d a
      = Some (NewForbidden a (errorString (planChangeMessage sc)))"
    using True resource(1) serviceinstances_resource [OF resource] object classRef cls
      specified stored changed
    by (simp add: changevalidator_Admit_def)
  then show ?thesis
    using handles by (simp add: updateServiceInstance_def IsForbidden_NewForbidden)
qed

theorem plan_change_denied_witness:
  "changevalidator_Admit
       (SetInternalServiceCatalogInformerFactory syncedInformers NewDenyPlanChangeIfNotUpdatable)
       planChangeRequest
     = Some (StatusError StatusReasonForbidden
         ''The Service Class class-1 does not allow plan changes.'')
   \<and> updateServiceInstance
       (SetInternalServiceCatalogInformerFactory syncedInformers NewDenyPlanChangeIfNotUpdatable)
       planChangeRequest (\<lambda>a brokerUpdateCalls. Suc brokerUpdateCalls) (0::nat)
     = (Some (StatusError StatusReasonForbidden
         ''The Service Class class-1 does not allow plan changes.''), 0)"
proof -
  let ?d = "SetInternalServiceCatalogInformerFactory syncedInformers NewDenyPlanChangeIfNotUpdatable"
  have h1: "Group (GetResource planChangeRequest) = GroupName"
    and h2: "Resource (GetResource planChangeRequest) = ''serviceinstances''"
    and h3: "GetObject planChangeRequest = ServiceInstanceObject updatedInstance"
    by (simp_all add: planChangeRequest_def)
  have h4: "ClusterServiceClassRef (Spec updatedInstance) = Some \<lparr>Name = ''class-1''\<rparr>"
    by (simp add: updatedInstance_def storedInstance_def)
  have h5: "scLister ?d (Name \<lparr>Name = ''class-1''\<rparr>) = Inr exampleClass"
    by (simp add: SetInternalServiceCatalogInformerFactory_def syncedInformers_def)
  have h6: "\<not> PlanUpdatable (Spec exampleClass)"
    by (simp add: exampleClass_def)
  have h7: "GetSpecifiedClusterServicePlan (Spec updatedInstance) \<noteq> ''''"
    by (simp add: GetSpecifiedClusterServicePlan_def updatedInstance_def storedInstance_def)
  have h8: "instanceLister ?d (Namespace updatedInstance) (Name updatedInstance) = Inr storedInstance"
    by (simp add: SetInternalServiceCatalogInformerFactory_def syncedInformers_def
        updatedInstance_def storedInstance_def)
  have h9: "ClusterServicePlanExternalName (Spec updatedInstance)
              \<noteq> ClusterServicePlanExternalName (Spec storedInstance)
            \<or> ClusterServicePlanExternalID (Spec updatedInstance)
              \<noteq> ClusterServicePlanExternalID (Spec storedInstance)
            \<or> ClusterServicePlanName (Spec updatedInstance)
              \<noteq> ClusterServicePlanName (Spec storedInstance)"
    by (simp add: updatedInstance_def storedInstance_def)
  have h10: "Handles (Handler ?d) Update"
    by (simp add: SetInternalServiceCatalogInformerFactory_def NewDenyPlanChangeIfNotUpdatable_def
        NewHandler_def Handles_def)
  from plan_change_denied_when_not_updatable [OF h1 h2 h3 h4 h5 h6 h7 h8 h9 h10,
      of "\<lambda>a brokerUpdateCalls. Suc brokerUpdateCalls" "0::nat"]
  obtain err where e: "changevalidator_Admit ?d planChangeRequest = Some err"
    and u: "updateServiceInstance ?d planChangeRequest
              (\<lambda>a brokerUpdateCalls. Suc brokerUpdateCalls) (0::nat) = (Some err, 0)"
    by blast
  have "changevalidator_Admit ?d planChangeRequest
      = Some (StatusError StatusReasonForbidden
          ''The Service Class class-1 does not allow plan changes.'')"
    by (simp add: changevalidator_Admit_def SetInternalServiceCatalogInformerFactory_def
        NewDenyPlanChangeIfNotUpdatable_def NewHandler_def WaitForReady_def syncedInformers_def
        planChangeRequest_def GroupResource_def servicecatalog_Resource_def updatedInstance_def
        storedInstance_def exampleClass_def GetSpecifiedClusterServicePlan_def NewForbidden_def
        IsForbidden_def planChangeMessage_def)
  with e u show ?thesis by simp
qed

text \<open>
  Claim C9. When the gate is ready and looks up the class of the instance under update,
  an error of the class lister decides alone: on a not-found error
  \<open>changevalidator_Admit\<close> returns \<^verbatim>\<open>nil\<close>, whatever the update does to the plan and
  whatever the class would say; on any other error it returns that error as Forbidden.
\<close>

theorem class_lookup_error_decides:
  assumes ready: "WaitForReady (Handler d)"
    and resource: "Group (GetResource a) = GroupName"
      "Resource (GetResource a) = ''serviceinstances''"
    and object: "GetObject a = ServiceInstanceObject instance"
    and classRef: "ClusterServiceClassRef (Spec instance) = Some classRef"
    and lister: "scLister d (Name classRef) = Inl err"
  shows "(IsNotFound err \<longrightarrow> changevalidator_Admit d a = None)
       \<and> (\<not> IsNotFound err \<longrightarrow>
            changevalidator_Admit d a = Some (NewForbidden a err)
            \<and> IsForbidden (NewForbidden a err))"
  using ready resource(1) serviceinstances_resource [OF resource] object classRef lister
  by (simp add: changevalidator_Admit_def IsForbidden_NewForbidden)

theorem class_lookup_error_witness:
  "IsNotFound (notFound ''class-1'')
   \<and> changevalidator_Admit
       (SetInternalServiceCatalogInformerFactory staleClassInformers NewDenyPlanChangeIfNotUpdatable)
       planChangeRequest = None"
proof -
  let ?d = "SetInternalServiceCatalogInformerFactory staleClassInformers
              NewDenyPlanChangeIfNotUpdatable"
  have h0: "WaitForReady (Handler ?d)"
    by (simp add: SetInternalServiceCatalogInformerFactory_def staleClassInformers_def
        syncedInformers_def WaitForReady_def)
  have h1: "Group (GetResource planChangeRequest) = GroupName"
    and h2: "Resource (GetResource planChangeRequest) = ''serviceinstances''"
    and h3: "GetObject planChangeRequest = ServiceInstanceObject updatedInstance"
    by (simp_all add: planChangeRequest_def)
  have h4: "ClusterServiceClassRef (Spec updatedInstance) = Some \<lparr>Name = ''class-1''\<rparr>"
    by (simp add: updatedInstance_def storedInstance_def)
  have h5: "scLister ?d (Name \<lparr>Name = ''class-1''\<rparr>) = Inl (notFound ''class-1'')"
    by (simp add: SetInternalServiceCatalogInformerFactory_def staleClassInformers_def)
  have nf: "IsNotFound (notFound ''class-1'')"
    by (simp add: IsNotFound_def notFound_def)
  with class_lookup_error_decides [OF h0 h1 h2 h3 h4 h5] show ?thesis by simp
qed

lemma admit_by_secret_to_review:
  assumes "WaitForReady (Handler s)" "Group (GetResource a) = GroupName" "isBrokerRequest a"
  shows "authsarcheck_Admit s a =
     (case secretToReview a of
       None \<Rightarrow> (None, [])
     | Some (namespace, secretName) \<Rightarrow>
         if namespace = '''' \<or> secretName = '''' then (None, [])
         else
           (case client s (newSubjectAccessReview a namespace secretName) of
             Inl err \<Rightarrow> (Some err, [newSubjectAccessReview a namespace secretName])
           | Inr sar' \<Rightarrow>
               if \<not> Allowed (sarStatus sar') then
                 (Some (NewForbidden a
                    (errorString (accessDeniedMessage secretName (sarStatus sar')))),
                  [newSubjectAccessReview a namespace secretName])
               else (None, [newSubjectAccessReview a namespace secretName])))"
  using assms
  by (auto simp: authsarcheck_Admit_def secretToReview_def consultedSecretRef_def
      isBrokerRequest_def brokerSecret_def GroupResource_def servicecatalog_Resource_def Let_def
      split: Object.splits option.splits sum.splits)

lemma review_of_the_secret:
  "ResourceAttributes (sarSpec (newSubjectAccessReview a namespace secretName))
     = \<lparr>raNamespace = namespace, raVerb = ''get'', raGroup = '''', raVersion = ''v1'',
        raResource = ''secrets'', raName = secretName\<rparr>
   \<and> User (sarSpec (newSubjectAccessReview a namespace secretName)) = GetName (GetUserInfo a)
   \<and> Groups (sarSpec (newSubjectAccessReview a namespace secretName)) = GetGroups (GetUserInfo a)
   \<and> UID (sarSpec (newSubjectAccessReview a namespace secretName)) = GetUID (GetUserInfo a)"
  by (simp add: newSubjectAccessReview_def Let_def)

text \<open>
  Claim C10, as amended. The check consults one auth config of the broker: Basic when
  it is set, Bearer only when Basic is \<^verbatim>\<open>nil\<close>. For a request to create or update a
  broker that reaches the check (the handler is ready, the resource is in the catalog's
  group), \<open>authsarcheck_Admit\<close> admits and creates no review when the broker's
  \<^verbatim>\<open>AuthInfo\<close> is \<^verbatim>\<open>nil\<close>, or the consulted config is absent or carries no
  secret reference, or the namespace or name derived from that reference is empty.
  Otherwise it creates exactly one review, by the requesting user, for the verb
  \<^verbatim>\<open>get\<close> on the resource \<^verbatim>\<open>secrets\<close>, with the name of the reference and the
  namespace of the reference (cluster broker) or of the broker (namespaced broker). When
  the review call returns a review, the result is Forbidden if and only if the review is
  not allowed, and \<^verbatim>\<open>nil\<close> if and only if it is allowed; when the call fails, its
  error is returned.
\<close>

theorem sar_check_reviews_consulted_secret:
  assumes ready: "WaitForReady (Handler s)"
    and group: "Group (GetResource a) = GroupName"
    and broker: "isBrokerRequest a"
  shows "(secretToReview a = None \<longrightarrow> authsarcheck_Admit s a = (None, []))
     \<and> (\<forall>namespace secretName. secretToReview a = Some (namespace, secretName) \<longrightarrow>
          (namespace = '''' \<or> secretName = '''' \<longrightarrow> authsarcheck_Admit s a = (None, []))
          \<and> (namespace \<noteq> '''' \<and> secretName \<noteq> '''' \<longrightarrow>
               (\<exists>sar. snd (authsarcheck_Admit s a) = [sar]
                  \<and> ResourceAttributes (sarSpec sar)
                      = \<lparr>raNamespace = namespace, raVerb = ''get'', raGroup = '''',
                         raVersion = ''v1'', raResource = ''secrets'', raName = secretName\<rparr>
                  \<and> User (sarSpec sar) = GetName (GetUserInfo a)
                  \<and> Groups (sarSpec sar) = GetGroups (GetUserInfo a)
                  \<and> UID (sarSpec sar) = GetUID (GetUserInfo a)
                  \<and> (\<forall>err. client s sar = Inl err \<longrightarrow>
                        fst (authsarcheck_Admit s a) = Some err)
                  \<and> (\<forall>review. client s sar = Inr review \<longrightarrow>
                        ((\<exists>err. fst (authsarcheck_Admit s a) = Some err \<and> IsForbidden err)
                           \<longleftrightarrow> \<not> Allowed (sarStatus review))
                        \<and> (fst (authsarcheck_Admit s a) = None
                           \<longleftrightarrow> Allowed (sarStatus review))))))"
proof (intro conjI impI allI)
  assume "secretToReview a = None"
  then show "authsarcheck_Admit s a = (None, [])"
    using admit_by_secret_to_review [OF ready group broker] by simp
next
  fix namespace secretName
  assume "secretToReview a = Some (namespace, secretName)"
    and "namespace = '''' \<or> secretName = ''''"
  then show "authsarcheck_Admit s a = (None, [])"
    using admit_by_secret_to_review [OF ready group broker] by auto
next
  fix namespace secretName
  assume secret: "secretToReview a = Some (namespace, secretName)"
    and nonempty: "namespace \<noteq> '''' \<and> secretName \<noteq> ''''"
  let ?sar = "newSubjectAccessReview a namespace secretName"
  have admit: "authsarcheck_Admit s a =
      (case client s ?sar of
        Inl err \<Rightarrow> (Some err, [?sar])
      | Inr sar' \<Rightarrow>
          if \<not> Allowed (sarStatus sar') then
            (Some (NewForbidden a
               (errorString (accessDeniedMessage secretName (sarStatus sar')))), [?sar])
          else (None, [?sar]))"
    using admit_by_secret_to_review [OF ready group broker] secret nonempty by simp
  have calls: "snd (authsarcheck_Admit s a) = [?sar]"
    unfolding admit by (simp split: sum.splits)
  have failed: "\<forall>err. client s ?sar = Inl err \<longrightarrow> fst (authsarcheck_Admit s a) = Some err"
    unfolding admit by simp
  have reviewed: "\<forall>review. client s ?sar = Inr review \<longrightarrow>
      ((\<exists>err. fst (authsarcheck_Admit s a) = Some err \<and> IsForbidden err)
         \<longleftrightarrow> \<not> Allowed (sarStatus review))
      \<and> (fst (authsarcheck_Admit s a) = None \<longleftrightarrow> Allowed (sarStatus review))"
    unfolding admit by (simp add: IsForbidden_NewForbidden)
  show "\<exists>sar. snd (authsarcheck_Admit s a) = [sar]
      \<and> ResourceAttributes (sarSpec sar)
          = \<lparr>raNamespace = namespace, raVerb = ''get'', raGroup = '''',
             raVersion = ''v1'', raResource = ''secrets'', raName = secretName\<rparr>
      \<and> User (sarSpec sar) = GetName (GetUserInfo a)
      \<and> Groups (sarSpec sar) = GetGroups (GetUserInfo a)
      \<and> UID (sarSpec sar) = GetUID (GetUserInfo a)
      \<and> (\<forall>err. client s sar = Inl err \<longrightarrow> fst (authsarcheck_Admit s a) = Some err)
      \<and> (\<forall>review. client s sar = Inr review \<longrightarrow>
            ((\<exists>err. fst (authsarcheck_Admit s a) = Some err \<and> IsForbidden err)
               \<longleftrightarrow> \<not> Allowed (sarStatus review))
            \<and> (fst (authsarcheck_Admit s a) = None \<longleftrightarrow> Allowed (sarStatus review)))"
    using calls failed reviewed review_of_the_secret [of a namespace secretName] by blast
qed

theorem sar_check_witness:
  "secretToReview (clusterBrokerRequest brokerWithBasicAuth) = Some (''creds'', ''broker-auth'')
   \<and> authsarcheck_Admit (SetKubeClientSet denyAll NewSARCheck)
         (clusterBrokerRequest brokerWithBasicAuth)
       = (Some (StatusError StatusReasonForbidden
            ''broker forbidden access to auth secret (broker-auth): Reason: no, EvaluationError: ''),
          [newSubjectAccessReview (clusterBrokerRequest brokerWithBasicAuth)
             ''creds'' ''broker-auth''])
   \<and> secretToReview (clusterBrokerRequest brokerWithBearerAuth) = Some (''creds'', ''token'')
   \<and> authsarcheck_Admit (SetKubeClientSet allowAll NewSARCheck)
         (clusterBrokerRequest brokerWithBearerAuth)
       = (None,
          [newSubjectAccessReview (clusterBrokerRequest brokerWithBearerAuth) ''creds'' ''token''])
   \<and> secretToReview (brokerRequest namespacedBrokerWithBasicAuth) = Some (''dev'', ''broker-auth'')
   \<and> authsarcheck_Admit (SetKubeClientSet denyAll NewSARCheck)
         (brokerRequest namespacedBrokerWithBasicAuth)
       = (Some (StatusError StatusReasonForbidden
            ''broker forbidden access to auth secret (broker-auth): Reason: no, EvaluationError: ''),
          [newSubjectAccessReview (brokerRequest namespacedBrokerWithBasicAuth)
             ''dev'' ''broker-auth''])
   \<and> secretToReview (brokerRequest brokerWithoutAuth) = None
   \<and> authsarcheck_Admit (SetKubeClientSet denyAll NewSARCheck) (brokerRequest brokerWithoutAuth)
       = (None, [])"
proof -
  let ?deny = "SetKubeClientSet denyAll NewSARCheck"
  let ?allow = "SetKubeClientSet allowAll NewSARCheck"
  have ready: "WaitForReady (Handler ?deny)" "WaitForReady (Handler ?allow)"
    by (simp_all add: SetKubeClientSet_def NewSARCheck_def NewHandler_def WaitForReady_def)
  have cluster: "Group (GetResource (clusterBrokerRequest b)) = GroupName"
    "isBrokerRequest (clusterBrokerRequest b)" for b
    by (simp_all add: clusterBrokerRequest_def isBrokerRequest_def)
  have namespaced: "Group (GetResource (brokerRequest b)) = GroupName"
    "isBrokerRequest (brokerRequest b)" for b
    by (simp_all add: brokerRequest_def isBrokerRequest_def)
  have s1: "secretToReview (clusterBrokerRequest brokerWithBasicAuth)
      = Some (''creds'', ''broker-auth'')"
    by (simp add: secretToReview_def consultedSecretRef_def clusterBrokerRequest_def
        brokerWithBasicAuth_def)
  have s2: "secretToReview (clusterBrokerRequest brokerWithBearerAuth) = Some (''creds'', ''token'')"
    by (simp add: secretToReview_def consultedSecretRef_def clusterBrokerRequest_def
        brokerWithBearerAuth_def)
  have s3: "secretToReview (brokerRequest namespacedBrokerWithBasicAuth)
      = Some (''dev'', ''broker-auth'')"
    by (simp add: secretToReview_def consultedSecretRef_def brokerRequest_def
        namespacedBrokerWithBasicAuth_def)
  have s4: "secretToReview (brokerRequest brokerWithoutAuth) = None"
    by (simp add: secretToReview_def consultedSecretRef_def brokerRequest_def
        brokerWithoutAuth_def)
  have a4: "authsarcheck_Admit ?deny (brokerRequest brokerWithoutAuth) = (None, [])"
    using sar_check_reviews_consulted_secret [OF ready(1) namespaced] s4 by blast
  have c1: "snd (authsarcheck_Admit ?deny (clusterBrokerRequest brokerWithBasicAuth))
      = [newSubjectAccessReview (clusterBrokerRequest brokerWithBasicAuth)
           ''creds'' ''broker-auth'']"
    and c2: "snd (authsarcheck_Admit ?allow (clusterBrokerRequest brokerWithBearerAuth))
      = [newSubjectAccessReview (clusterBrokerRequest brokerWithBearerAuth) ''creds'' ''token'']"
    and c3: "snd (authsarcheck_Admit ?deny (brokerRequest namespacedBrokerWithBasicAuth))
      = [newSubjectAccessReview (brokerRequest namespacedBrokerWithBasicAuth)
           ''dev'' ''broker-auth'']"
    by (simp_all add: authsarcheck_Admit_def brokerSecret_def NewSARCheck_def NewHandler_def
        WaitForReady_def clusterBrokerRequest_def
        brokerRequest_def brokerWithBasicAuth_def brokerWithBearerAuth_def
        namespacedBrokerWithBasicAuth_def GroupResource_def servicecatalog_Resource_def
        Let_def SetKubeClientSet_def denyAll_def allowAll_def)
  have f2: "fst (authsarcheck_Admit ?allow (clusterBrokerRequest brokerWithBearerAuth)) = None"
    using sar_check_reviews_consulted_secret [OF ready(2) cluster, of brokerWithBearerAuth] s2 c2
    by (simp add: SetKubeClientSet_def allowAll_def)
  have f1: "fst (authsarcheck_Admit ?deny (clusterBrokerRequest brokerWithBasicAuth))
      = Some (StatusError StatusReasonForbidden
          ''broker forbidden access to auth secret (broker-auth): Reason: no, EvaluationError: '')"
    and f3: "fst (authsarcheck_Admit ?deny (brokerRequest namespacedBrokerWithBasicAuth))
      = Some (StatusError StatusReasonForbidden
          ''broker forbidden access to auth secret (broker-auth): Reason: no, EvaluationError: '')"
    by (simp_all add: authsarcheck_Admit_def brokerSecret_def NewSARCheck_def NewHandler_def
        WaitForReady_def clusterBrokerRequest_def
        brokerRequest_def brokerWithBasicAuth_def namespacedBrokerWithBasicAuth_def
        GroupResource_def servicecatalog_Resource_def Let_def SetKubeClientSet_def denyAll_def
        NewForbidden_def IsForbidden_def accessDeniedMessage_def)
  show ?thesis
    using s1 s2 s3 s4 a4 c1 c2 c3 f1 f2 f3 by (simp add: prod_eq_iff)
qed

theorem bearer_secret_unreviewed_counterexample:
  "AuthInfo (Spec brokerWithEmptyBasicAuth)
     = Some \<lparr>Basic = Some \<lparr>SecretRef = None\<rparr>,
             Bearer = Some \<lparr>SecretRef = Some \<lparr>Name = ''token'', Namespace = ''creds''\<rparr>\<rparr>\<rparr>
   \<and> carriesSecretRef (Some \<lparr>SecretRef = Some \<lparr>Name = ''token'', Namespace = ''creds''\<rparr>\<rparr>)
   \<and> WaitForReady (Handler (SetKubeClientSet denyAll NewSARCheck))
   \<and> isBrokerRequest (clusterBrokerRequest brokerWithEmptyBasicAuth)
   \<and> authsarcheck_Admit (SetKubeClientSet denyAll NewSARCheck)
         (clusterBrokerRequest brokerWithEmptyBasicAuth)
       = (None, [])"
  by (simp add: brokerWithEmptyBasicAuth_def carriesSecretRef_def SetKubeClientSet_def
      NewSARCheck_def NewHandler_def WaitForReady_def isBrokerRequest_def
      clusterBrokerRequest_def authsarcheck_Admit_def brokerSecret_def GroupResource_def
      servicecatalog_Resource_def)

section \<open>Results on the secret transform pipeline\<close>

lemma transformCredentials_append:
  "transformCredentials c (ts @ us) p =
     (case transformCredentials c ts p of
       Inl err \<Rightarrow> Inl err
     | Inr p' \<Rightarrow> transformCredentials c us p')"
  by (induction ts arbitrary: p) (auto split: sum.splits)

lemma multipleTransforms_result:
  assumes "evaluateJSONPath c ''{.foo}'' (credentials c) = Some ''bar''"
    and "getSecret c \<lparr>Name = ''other-secret'', Namespace = ''some-namespace''\<rparr>
           = Inr [''key-from-other-secret'' \<mapsto> ''qux'']"
  shows "transformCredentials c multipleTransforms brokerCredentials = Inr expectedSecretData"
  using assms
  by (simp add: multipleTransforms_def brokerCredentials_def expectedSecretData_def)

lemma testTransformer_reads_credentials:
  "evaluateJSONPath testTransformer ''{.foo}'' (credentials testTransformer) = Some ''bar''"
  by (simp add: testTransformer_def topLevelField_def brokerCredentials_def)

lemma testTransformer_other_secret:
  "getSecret testTransformer \<lparr>Name = ''other-secret'', Namespace = ''some-namespace''\<rparr>
     = Inr [''key-from-other-secret'' \<mapsto> ''qux'']"
  by (simp add: testTransformer_def prependGetSecretReaction_def)

text \<open>
  Claim C2. The transforms of a list take effect in list order, each on the payload the
  ones before it left: running \<open>ts @ us\<close> is running \<open>ts\<close> and then \<open>us\<close> on its
  result. \<^verbatim>\<open>AddKey\<close> sets the key to the literal bytes, to the literal string, or
  to the value the JSONPath expression has in the original credential document, whatever
  the working payload holds by then. \<^verbatim>\<open>RenameKey\<close> moves the value of \<open>from\<close> to
  \<open>to\<close> and removes \<open>from\<close>, and changes nothing when \<open>from\<close> is absent.
  \<^verbatim>\<open>RemoveKey\<close> deletes the key and changes nothing when it is absent.
  \<^verbatim>\<open>AddKeysFrom\<close> merges the fetched secret in, its values winning. The list of the
  test case "multiple transforms" turns the credentials \<^verbatim>\<open>{foo: bar, baz: zap}\<close> into
  exactly the secret data the test expects, without \<^verbatim>\<open>foo\<close> and \<^verbatim>\<open>baz\<close>.
\<close>

theorem secret_transforms_applied_in_order:
  "transformCredentials c (ts @ us) p =
       (case transformCredentials c ts p of
         Inl err \<Rightarrow> Inl err
       | Inr p' \<Rightarrow> transformCredentials c us p')
   \<and> transformCredentials c [AddKey key (Value v)] p = Inr (p(key \<mapsto> v))
   \<and> transformCredentials c [AddKey key (StringValue v)] p = Inr (p(key \<mapsto> v))
   \<and> (evaluateJSONPath c expr (credentials c) = Some v \<longrightarrow>
        transformCredentials c [AddKey key (JSONPathExpression expr)] p = Inr (p(key \<mapsto> v)))
   \<and> (p from = Some v \<longrightarrow>
        transformCredentials c [RenameKey from to] p = Inr ((p(to \<mapsto> v))(from := None)))
   \<and> (p from = None \<longrightarrow> transformCredentials c [RenameKey from to] p = Inr p)
   \<and> transformCredentials c [RemoveKey key] p = Inr (p(key := None))
   \<and> (p key = None \<longrightarrow> transformCredentials c [RemoveKey key] p = Inr p)
   \<and> (getSecret c secretRef = Inr other \<longrightarrow>
        transformCredentials c [AddKeysFrom secretRef] p = Inr (p ++ other)
        \<and> (\<forall>k. (p ++ other) k = (case other k of None \<Rightarrow> p k | Some w \<Rightarrow> Some w)))
   \<and> (evaluateJSONPath c ''{.foo}'' (credentials c) = Some ''bar''
        \<and> getSecret c \<lparr>Name = ''other-secret'', Namespace = ''some-namespace''\<rparr>
             = Inr [''key-from-other-secret'' \<mapsto> ''qux''] \<longrightarrow>
        transformCredentials c multipleTransforms brokerCredentials = Inr expectedSecretData
        \<and> expectedSecretData ''foo'' = None \<and> expectedSecretData ''baz'' = None)"
proof (intro conjI impI)
  show "transformCredentials c (ts @ us) p =
      (case transformCredentials c ts p of
        Inl err \<Rightarrow> Inl err
      | Inr p' \<Rightarrow> transformCredentials c us p')"
    by (rule transformCredentials_append)
next
  assume "p key = None"
  then have "p(key := None) = p" by (simp add: fun_upd_idem)
  then show "transformCredentials c [RemoveKey key] p = Inr p" by simp
next
  show "\<forall>k. (p ++ other) k = (case other k of None \<Rightarrow> p k | Some w \<Rightarrow> Some w)"
    by (simp add: map_add_def)
next
  assume "evaluateJSONPath c ''{.foo}'' (credentials c) = Some ''bar''
      \<and> getSecret c \<lparr>Name = ''other-secret'', Namespace = ''some-namespace''\<rparr>
           = Inr [''key-from-other-secret'' \<mapsto> ''qux'']"
  then show "transformCredentials c multipleTransforms brokerCredentials = Inr expectedSecretData"
    by (simp add: multipleTransforms_result)
qed (simp_all add: expectedSecretData_def)

theorem secret_transforms_witness:
  "transformCredentials testTransformer multipleTransforms brokerCredentials
     = Inr expectedSecretData
   \<and> transformCredentials testTransformer renameNonExistentKey brokerCredentials
     = Inr brokerCredentials
   \<and> transformCredentials testTransformer [] brokerCredentials = Inr brokerCredentials
   \<and> transformCredentials testTransformer
       ([RemoveKey ''foo''] @ [AddKey ''fromResponse'' (JSONPathExpression ''{.foo}'')])
       brokerCredentials
     = Inr [''baz'' \<mapsto> ''zap'', ''fromResponse'' \<mapsto> ''bar'']"
proof -
  note facts = secret_transforms_applied_in_order [where c = testTransformer
      and p = brokerCredentials and ts = "[RemoveKey ''foo'']"
      and us = "[AddKey ''fromResponse'' (JSONPathExpression ''{.foo}'')]"
      and ?from = "''non-existent-key''" and to = "''bar''"]
  have absent: "brokerCredentials ''non-existent-key'' = None"
    by (simp add: brokerCredentials_def)
  have scenario: "transformCredentials testTransformer multipleTransforms brokerCredentials
      = Inr expectedSecretData"
    using facts testTransformer_reads_credentials testTransformer_other_secret by blast
  have rename: "transformCredentials testTransformer renameNonExistentKey brokerCredentials
      = Inr brokerCredentials"
    using facts absent unfolding renameNonExistentKey_def by blast
  have "transformCredentials testTransformer
      ([RemoveKey ''foo''] @ [AddKey ''fromResponse'' (JSONPathExpression ''{.foo}'')])
      brokerCredentials
      = (case transformCredentials testTransformer [RemoveKey ''foo''] brokerCredentials of
          Inl err \<Rightarrow> Inl err
        | Inr p' \<Rightarrow> transformCredentials testTransformer
            [AddKey ''fromResponse'' (JSONPathExpression ''{.foo}'')] p')"
    using facts by blast
  then have order: "transformCredentials testTransformer
      ([RemoveKey ''foo''] @ [AddKey ''fromResponse'' (JSONPathExpression ''{.foo}'')])
      brokerCredentials = Inr [''baz'' \<mapsto> ''zap'', ''fromResponse'' \<mapsto> ''bar'']"
    using testTransformer_reads_credentials by (simp add: brokerCredentials_def)
  from scenario rename order show ?thesis by simp
qed

end
